theory Spec2Isabelle
  imports Complex_Main "HOL-Library.AList" "HOL-Library.Log_Nat"
begin

section \<open>Floating values\<close>

text \<open>
  The service computes on IEEE double arrays (\<^verbatim>\<open>np.array(a, dtype="float64")\<close>).
  A double is a finite number, given as the rational it stands for, or one of the three
  special values. An arithmetic result is rounded to the nearest double, ties to even,
  and overflows to an infinity; the special values follow IEEE 754 as numpy applies it:
  an array operation never raises, and a division by zero gives an infinity or NaN. The
  two zeros of IEEE are one value here: a quotient by zero takes its sign from the
  numerator alone.
\<close>

datatype fval = Num rat | PInf | NInf | NaN

fun isnan :: "fval \<Rightarrow> bool" where
  "isnan NaN = True"
| "isnan _ = False"

fun isfinite :: "fval \<Rightarrow> bool" where
  "isfinite (Num _) = True"
| "isfinite _ = False"

definition isinf :: "fval \<Rightarrow> bool" where
  "isinf x = (x = PInf \<or> x = NInf)"

text \<open>
  The nearest double of a rational, ties to even: 53 significant bits \<open>m\<close> at the
  exponent \<open>u\<close>, which is not below \<open>-1074\<close>. The rounded value \<open>m * 2^u\<close> reaches
  \<open>2^1024\<close>, and is an infinity, exactly when \<open>u\<close> is above 971, or is 971 with
  \<open>m = 2^53\<close>.
\<close>

definition floor_log2 :: "rat \<Rightarrow> int" where
  "floor_log2 a =
     (let k = bitlen (fst (quotient_of a)) - bitlen (snd (quotient_of a))
      in if 2 powi k \<le> a then k else k - 1)"

definition round_half_even :: "rat \<Rightarrow> int" where
  "round_half_even q =
     (let f = \<lfloor>q\<rfloor>; d = q - of_int f
      in if d < 1 / 2 then f else if 1 / 2 < d then f + 1 else if even f then f else f + 1)"

definition round_double :: "rat \<Rightarrow> fval" where
  "round_double q =
     (if q = 0 then Num 0
      else let a = \<bar>q\<bar>;
               u = max (floor_log2 a - 52) (- 1074);
               m = round_half_even (a / 2 powi u)
           in if 971 < u \<or> (u = 971 \<and> m = 9007199254740992)
              then (if 0 < q then PInf else NInf)
              else Num (if 0 < q then of_int m * 2 powi u else - (of_int m * 2 powi u)))"


fun fsub :: "fval \<Rightarrow> fval \<Rightarrow> fval" where
  "fsub NaN _ = NaN"
| "fsub _ NaN = NaN"
| "fsub (Num a) (Num b) = round_double (a - b)"
| "fsub (Num _) PInf = NInf"
| "fsub (Num _) NInf = PInf"
| "fsub PInf PInf = NaN"
| "fsub PInf _ = PInf"
| "fsub NInf NInf = NaN"
| "fsub NInf _ = NInf"

fun fmul :: "fval \<Rightarrow> fval \<Rightarrow> fval" where
  "fmul NaN _ = NaN"
| "fmul _ NaN = NaN"
| "fmul (Num a) (Num b) = round_double (a * b)"
| "fmul (Num a) PInf = (if a = 0 then NaN else if 0 < a then PInf else NInf)"
| "fmul (Num a) NInf = (if a = 0 then NaN else if 0 < a then NInf else PInf)"
| "fmul PInf (Num b) = (if b = 0 then NaN else if 0 < b then PInf else NInf)"
| "fmul NInf (Num b) = (if b = 0 then NaN else if 0 < b then NInf else PInf)"
| "fmul PInf PInf = PInf"
| "fmul PInf NInf = NInf"
| "fmul NInf PInf = NInf"
| "fmul NInf NInf = PInf"

fun fdiv :: "fval \<Rightarrow> fval \<Rightarrow> fval" where
  "fdiv NaN _ = NaN"
| "fdiv _ NaN = NaN"
| "fdiv (Num a) (Num b) =
     (if b = 0 then (if a = 0 then NaN else if 0 < a then PInf else NInf)
      else round_double (a / b))"
| "fdiv (Num _) _ = Num 0"
| "fdiv PInf (Num b) = (if b < 0 then NInf else PInf)"
| "fdiv NInf (Num b) = (if b < 0 then PInf else NInf)"
| "fdiv _ _ = NaN"

text \<open>\<^verbatim>\<open>np.sqrt(252)\<close>: the double nearest to the square root, 15.874507866387544.\<close>

definition sqrt_252 :: fval where
  "sqrt_252 = Num (8936553463969119 / 562949953421312)"

section \<open>Python and numpy sequences\<close>

text \<open>
  A slice bound of Python: a negative bound counts from the end, and a bound outside the
  sequence is clipped to it. \<^verbatim>\<open>a[start:stop]\<close> with a bound left out is
  \<open>py_slice a None stop\<close> or \<open>py_slice a start None\<close>.
\<close>

definition slice_bound :: "nat \<Rightarrow> int \<Rightarrow> nat" where
  "slice_bound n k = (if k < 0 then nat (max (k + int n) 0) else min (nat k) n)"

definition py_slice :: "'a list \<Rightarrow> int option \<Rightarrow> int option \<Rightarrow> 'a list" where
  "py_slice a start stop =
     (let n = length a;
          lo = (case start of None \<Rightarrow> 0 | Some k \<Rightarrow> slice_bound n k);
          hi = (case stop of None \<Rightarrow> n | Some k \<Rightarrow> slice_bound n k)
      in take (hi - lo) (drop lo a))"

text \<open>
  \<^verbatim>\<open>np.diff(a)\<close> is \<^verbatim>\<open>a[1:] - a[:-1]\<close>. The element-wise operations below are
  used on two arrays of equal length, or on an array and a scalar.
\<close>

definition np_sub :: "fval list \<Rightarrow> fval list \<Rightarrow> fval list" where
  "np_sub a b = map2 fsub a b"

definition np_div :: "fval list \<Rightarrow> fval list \<Rightarrow> fval list" where
  "np_div a b = map2 fdiv a b"

definition np_diff :: "fval list \<Rightarrow> fval list" where
  "np_diff a = np_sub (py_slice a (Some 1) None) (py_slice a None (Some (- 1)))"

text \<open>
  \<^verbatim>\<open>result[start:] = src\<close> on a numpy array: the source has the length of the
  target slice, or has length one and is broadcast; any other length raises
  \<^verbatim>\<open>ValueError\<close> (\<open>None\<close>).
\<close>

definition np_assign_from :: "'a list \<Rightarrow> int \<Rightarrow> 'a list \<Rightarrow> 'a list option" where
  "np_assign_from result start src =
     (let lo = slice_bound (length result) start;
          len = length result - lo
      in if length src = len then Some (take lo result @ src)
         else if length src = 1 then Some (take lo result @ replicate len (hd src))
         else None)"

text \<open>
  \<^verbatim>\<open>pd.Series(x).rolling(window=w).std().values\<close> is a function of the pandas
  library and a parameter of the model (\<open>None\<close> when it raises). What the model takes
  from the documentation of pandas: a negative window raises \<^verbatim>\<open>ValueError\<close>;
  otherwise the result has the length of the input; entry \<open>j\<close> is the sample standard
  deviation of the \<open>w\<close> entries ending at \<open>j\<close>, NaN while fewer than \<open>w\<close> entries end
  there and for every window below two entries; and entry \<open>j\<close> is computed from the
  entries up to \<open>j\<close> only.
\<close>

type_synonym rolling_std = "int \<Rightarrow> fval list \<Rightarrow> fval list option"

definition pandas_rolling :: "rolling_std \<Rightarrow> bool" where
  "pandas_rolling f \<longleftrightarrow>
     (\<forall>w x. w < 0 \<longrightarrow> f w x = None) \<and>
     (\<forall>w x. 0 \<le> w \<longrightarrow>
        (\<exists>y. f w x = Some y \<and> length y = length x \<and>
             (\<forall>j < length x. j + 1 < nat w \<or> w < 2 \<longrightarrow> y ! j = NaN))) \<and>
     (\<forall>w x x' y y' j.
        f w x = Some y \<and> f w x' = Some y' \<and> j < length x \<and> j < length x' \<and>
        take (Suc j) x = take (Suc j) x' \<longrightarrow> y ! j = y' ! j)"

section \<open>Numeric sanitizer\<close>

text \<open>
  \<^verbatim>\<open>
  def _nan_to_none(arr):
      return [None if (x is None or (isinstance(x, float) and np.isnan(x))) else float(x)
              for x in arr]
  \<close>
  An element is Python's \<^verbatim>\<open>None\<close> or a float (\<^verbatim>\<open>np.float64\<close> is a subclass of
  \<^verbatim>\<open>float\<close>); an element of the result is \<^verbatim>\<open>None\<close> (JSON null) or a float.
\<close>

fun nan_to_none :: "fval option list \<Rightarrow> fval option list" where
  "nan_to_none [] = []"
| "nan_to_none (None # arr) = None # nan_to_none arr"
| "nan_to_none (Some x # arr) = (if isnan x then None else Some x) # nan_to_none arr"

text \<open>The sanitizer on a float array, which holds no \<^verbatim>\<open>None\<close>.\<close>

definition values_of :: "fval list \<Rightarrow> fval option list" where
  "values_of arr = nan_to_none (map Some arr)"

section \<open>Return and equity normalizer\<close>


text \<open>
  \<^verbatim>\<open>
  def _equity_to_returns(equity):
      if equity.size < 2:
          return np.array([], dtype="float64")
      prev = equity[:-1]
      curr = equity[1:]
      safe_prev = np.where(prev == 0, np.nan, prev)
      returns = curr / safe_prev - 1.0
      mask = np.isfinite(returns)
      return returns[mask]
  \<close>
\<close>

definition equity_to_returns :: "fval list \<Rightarrow> fval list" where
  "equity_to_returns eq =
     (if length eq < 2 then []
      else let prev = py_slice eq None (Some (- 1));
               curr = py_slice eq (Some 1) None;
               safe_prev = map (\<lambda>p. if p = Num 0 then NaN else p) prev;
               rs = map (\<lambda>r. fsub r (Num 1)) (np_div curr safe_prev)
           in filter isfinite rs)"

text \<open>
  The derivation in the words of the specification, to compare with the code: the
  returns \<open>equity[i+1] / equity[i] - 1\<close> of the consecutive pairs, in order, without
  those whose denominator is zero or whose value is not finite.
\<close>

definition equity_returns_spec :: "fval list \<Rightarrow> fval list" where
  "equity_returns_spec eq =
     map (\<lambda>i. fsub (fdiv (eq ! (i + 1)) (eq ! i)) (Num 1))
       (filter (\<lambda>i. eq ! i \<noteq> Num 0 \<and> isfinite (fsub (fdiv (eq ! (i + 1)) (eq ! i)) (Num 1)))
          [0..<length eq - 1])"

section \<open>Strings\<close>

text \<open>
  A Python string is modelled as a list of characters with code points below 256
  (Latin-1). \<^verbatim>\<open>str.strip()\<close> removes the white space of Python at both ends,
  \<^verbatim>\<open>str.lower()\<close> and \<^verbatim>\<open>str.upper()\<close> map letters. The capitals of the two
  letters with code points 181 and 255 lie outside Latin-1 and are no ASCII letters;
  \<open>py_upper\<close> leaves these two letters as they are.
\<close>

definition isspace :: "char \<Rightarrow> bool" where
  "isspace c = ((of_char c :: nat) \<in> {9, 10, 11, 12, 13, 28, 29, 30, 31, 32, 133, 160})"

definition py_strip :: "string \<Rightarrow> string" where
  "py_strip s = rev (dropWhile isspace (rev (dropWhile isspace s)))"

definition lower_char :: "char \<Rightarrow> char" where
  "lower_char c =
     (let n = (of_char c :: nat)
      in if (65 \<le> n \<and> n \<le> 90) \<or> (192 \<le> n \<and> n \<le> 222 \<and> n \<noteq> 215)
         then char_of (n + 32) else c)"

definition py_lower :: "string \<Rightarrow> string" where
  "py_lower s = map lower_char s"

definition upper_char :: "char \<Rightarrow> string" where
  "upper_char c =
     (let n = (of_char c :: nat)
      in if (97 \<le> n \<and> n \<le> 122) \<or> (224 \<le> n \<and> n \<le> 254 \<and> n \<noteq> 247)
         then [char_of (n - 32)]
         else if n = 223 then ''SS'' else [c])"

definition py_upper :: "string \<Rightarrow> string" where
  "py_upper s = concat (map upper_char s)"

section \<open>Conversions of Python\<close>

datatype pyexc = TypeError | ValueError | OverflowError | AttributeError | LibraryError









section \<open>Period resolver\<close>



section \<open>Responses\<close>

text \<open>
  A handler returns its value, raises \<^verbatim>\<open>HTTPException\<close> with a status code and a
  detail, or lets another exception escape, which the framework answers with status 500.
  The detail is kept as data: the number or the name the message is formatted with.
\<close>

datatype detail =
    PricesMin2
  | PricesShorterThanPeriod
  | InvalidCumulative
  | VolatilityNeeds int
  | UnsupportedCloseOnly string
  | ReturnsMin2

datatype error = HTTPException nat detail | Unhandled pyexc

fun status_code :: "error \<Rightarrow> nat" where
  "status_code (HTTPException code _) = code"
| "status_code (Unhandled _) = 500"

definition client_error :: "error + 'a \<Rightarrow> bool" where
  "client_error r =
     (case r of Inl e \<Rightarrow> 400 \<le> status_code e \<and> status_code e < 500 | Inr _ \<Rightarrow> False)"

text \<open>
  The framework renders the value a handler returns as JSON and refuses a float that is
  not finite (\<^verbatim>\<open>ValueError: Out of range float values are not JSON compliant\<close>): the
  request is then answered with status 500, as for every exception that escapes.
\<close>

definition json_ok :: "fval option \<Rightarrow> bool" where
  "json_ok v = (case v of None \<Rightarrow> True | Some x \<Rightarrow> isfinite x)"

definition render_values :: "fval option list \<Rightarrow> error + fval option list" where
  "render_values vs = (if list_all json_ok vs then Inr vs else Inl (Unhandled ValueError))"

section \<open>Metrics aggregator\<close>

text \<open>
  What a statistic of the quantstats library hands back: it raises, or returns a Python
  value. \<open>PyFloat\<close> is a \<^verbatim>\<open>float\<close> or a numpy floating scalar, \<open>PyInt\<close> an
  \<^verbatim>\<open>int\<close> (a \<^verbatim>\<open>bool\<close> too) or a numpy integer scalar, \<open>PySeq\<close> an array, list or
  tuple, \<open>PyOther\<close> any other object.
\<close>

datatype pyval = PyFloat fval | PyInt int | PySeq "pyval list" | PyOther
























section \<open>Close-only indicators\<close>

text \<open>
  The request of the close-only path (\<^verbatim>\<open>CloseOnlyReq\<close>): the indicator name, the
  prices, and the parameter dictionary, which may be \<^verbatim>\<open>null\<close>. Of the dictionary the
  model keeps the entries this path reads, each absent or of the type the code converts
  it to; \<^verbatim>\<open>annualize\<close> is a string or some other JSON value.
\<close>

datatype jval = JString string | JOther

record params =
  p_period :: "int option"
  p_fastperiod :: "int option"
  p_slowperiod :: "int option"
  p_signalperiod :: "int option"
  p_matype :: "int option"
  p_nbdevup :: "fval option"
  p_nbdevdn :: "fval option"
  p_annualize :: "jval option"

record close_only_req =
  indicator :: string
  prices :: "fval list"
  params :: "params option"

text \<open>
  The functions of TA-Lib this path calls, and the rolling standard deviation of pandas,
  are parameters; \<open>None\<close> is an exception raised by the library.
\<close>

record libs =
  RSI :: "fval list \<Rightarrow> int \<Rightarrow> fval list option"
  SMA :: "fval list \<Rightarrow> int \<Rightarrow> fval list option"
  EMA :: "fval list \<Rightarrow> int \<Rightarrow> fval list option"
  MACD :: "fval list \<Rightarrow> int \<Rightarrow> int \<Rightarrow> int \<Rightarrow> (fval list \<times> fval list \<times> fval list) option"
  PPO :: "fval list \<Rightarrow> int \<Rightarrow> int \<Rightarrow> int \<Rightarrow> fval list option"
  BBANDS ::
    "fval list \<Rightarrow> int \<Rightarrow> fval \<Rightarrow> fval \<Rightarrow> int \<Rightarrow> (fval list \<times> fval list \<times> fval list) option"
  ROLLING_STD :: rolling_std

definition get_or :: "'a option \<Rightarrow> 'a \<Rightarrow> 'a" where
  "get_or v d = (case v of None \<Rightarrow> d | Some x \<Rightarrow> x)"

definition with_params ::
  "params option \<Rightarrow> (params \<Rightarrow> error + fval option list) \<Rightarrow> error + fval option list" where
  "with_params pr f = (case pr of None \<Rightarrow> Inl (Unhandled AttributeError) | Some p \<Rightarrow> f p)"

definition lib_values :: "fval list option \<Rightarrow> error + fval option list" where
  "lib_values out =
     (case out of None \<Rightarrow> Inl (Unhandled LibraryError) | Some v \<Rightarrow> Inr (values_of v))"

text \<open>
  \<^verbatim>\<open>a - b\<close> on two arrays whose lengths the code does not control: equal lengths, or
  one of them of length one and broadcast; otherwise numpy raises.
\<close>

definition np_sub_broadcast :: "fval list \<Rightarrow> fval list \<Rightarrow> fval list option" where
  "np_sub_broadcast a b =
     (if length a = length b then Some (map2 fsub a b)
      else if length b = 1 then Some (map (\<lambda>x. fsub x (hd b)) a)
      else if length a = 1 then Some (map (\<lambda>y. fsub (hd a) y) b)
      else None)"

definition rsi_branch :: "libs \<Rightarrow> fval list \<Rightarrow> params \<Rightarrow> error + fval option list" where
  "rsi_branch lib ps p =
     (let n = get_or (p_period p) 14
      in if int (length ps) < n then Inl (HTTPException 400 PricesShorterThanPeriod)
         else lib_values (RSI lib ps n))"

definition macd_branch ::
  "libs \<Rightarrow> string \<Rightarrow> fval list \<Rightarrow> params \<Rightarrow> error + fval option list" where
  "macd_branch lib ind ps p =
     (case MACD lib ps (get_or (p_fastperiod p) 12) (get_or (p_slowperiod p) 26)
             (get_or (p_signalperiod p) 9) of
        None \<Rightarrow> Inl (Unhandled LibraryError)
      | Some (macd, macd_signal, macd_hist) \<Rightarrow>
          if ind \<in> set [''MACD'', ''MACD_HIST'', ''MACD-HIST''] then Inr (values_of macd_hist)
          else if ind = ''MACD_LINE'' then Inr (values_of macd)
          else Inr (values_of macd_signal))"

definition ppo_branch ::
  "libs \<Rightarrow> string \<Rightarrow> fval list \<Rightarrow> params \<Rightarrow> error + fval option list" where
  "ppo_branch lib ind ps p =
     (case PPO lib ps (get_or (p_fastperiod p) 12) (get_or (p_slowperiod p) 26)
             (get_or (p_matype p) 0) of
        None \<Rightarrow> Inl (Unhandled LibraryError)
      | Some ppo_line \<Rightarrow>
          if ind \<in> set [''PPO'', ''PPO_LINE''] then Inr (values_of ppo_line)
          else (case EMA lib ppo_line (get_or (p_signalperiod p) 9) of
                  None \<Rightarrow> Inl (Unhandled LibraryError)
                | Some ppo_signal \<Rightarrow>
                    if ind = ''PPO_SIGNAL'' then Inr (values_of ppo_signal)
                    else (case np_sub_broadcast ppo_line ppo_signal of
                            None \<Rightarrow> Inl (Unhandled ValueError)
                          | Some hist \<Rightarrow> Inr (values_of hist))))"

definition bbands_branch ::
  "libs \<Rightarrow> string \<Rightarrow> fval list \<Rightarrow> params \<Rightarrow> error + fval option list" where
  "bbands_branch lib ind ps p =
     (case BBANDS lib ps (get_or (p_period p) 20) (get_or (p_nbdevup p) (Num 2))
             (get_or (p_nbdevdn p) (Num 2)) (get_or (p_matype p) 0) of
        None \<Rightarrow> Inl (Unhandled LibraryError)
      | Some (upper, middle, lower) \<Rightarrow>
          if ind = ''BBANDS_UPPER'' then Inr (values_of upper)
          else if ind = ''BBANDS_MIDDLE'' then Inr (values_of middle)
          else Inr (values_of lower))"

text \<open>
  \<^verbatim>\<open>
  if prices.size < 1 or prices[0] == 0:
      raise HTTPException(status_code=400, detail="Invalid prices for cumulative return")
  result = np.full(prices.size, np.nan)
  if prices.size > 1:
      result[1:] = (prices[:-1] / prices[0]) - 1.0
  result[0] = 0.0
  return {"values": _nan_to_none(result)}
  \<close>
\<close>

definition cumulative_return :: "fval list \<Rightarrow> error + fval option list" where
  "cumulative_return ps =
     (if length ps < 1 \<or> hd ps = Num 0 then Inl (HTTPException 400 InvalidCumulative)
      else let result = replicate (length ps) NaN;
               shifted = (if 1 < length ps
                          then np_assign_from result 1
                                 (map (\<lambda>x. fsub (fdiv x (hd ps)) (Num 1))
                                    (py_slice ps None (Some (- 1))))
                          else Some result)
           in case shifted of
                None \<Rightarrow> Inl (Unhandled ValueError)
              | Some r \<Rightarrow> Inr (values_of (r[0 := Num 0])))"

text \<open>
  \<^verbatim>\<open>
  period = int(req.params.get("period", 20))
  annualize = req.params.get("annualize", "true").lower() == "true"
  if prices.size < period + 1:
      raise HTTPException(status_code=400, detail=f"Need at least {period + 1} prices ...")
  returns = np.diff(prices) / prices[:-1]
  returns_series = pd.Series(returns)
  rolling_vol = returns_series.rolling(window=period).std().values
  if annualize:
      rolling_vol = rolling_vol * np.sqrt(252)
  result = np.full(prices.size, np.nan)
  if prices.size > period:
      result[period:] = rolling_vol[period-2:-1]
  return {"values": _nan_to_none(result)}
  \<close>
\<close>

definition annualize_flag :: "params \<Rightarrow> bool option" where
  "annualize_flag p =
     (case p_annualize p of
        None \<Rightarrow> Some True
      | Some (JString s) \<Rightarrow> Some (py_lower s = ''true'')
      | Some JOther \<Rightarrow> None)"

definition volatility :: "libs \<Rightarrow> fval list \<Rightarrow> params \<Rightarrow> error + fval option list" where
  "volatility lib ps p =
     (let w = get_or (p_period p) 20
      in case annualize_flag p of
           None \<Rightarrow> Inl (Unhandled AttributeError)
         | Some annualize \<Rightarrow>
             if int (length ps) < w + 1 then Inl (HTTPException 400 (VolatilityNeeds (w + 1)))
             else (case ROLLING_STD lib w (np_div (np_diff ps) (py_slice ps None (Some (- 1)))) of
                     None \<Rightarrow> Inl (Unhandled ValueError)
                   | Some vol \<Rightarrow>
                       (let rolling_vol =
                              (if annualize then map (\<lambda>v. fmul v sqrt_252) vol
                               else vol);
                            result = replicate (length ps) NaN
                        in if w < int (length ps)
                           then (case np_assign_from result w
                                        (py_slice rolling_vol (Some (w - 2)) (Some (- 1))) of
                                   None \<Rightarrow> Inl (Unhandled ValueError)
                                 | Some r \<Rightarrow> Inr (values_of r))
                           else Inr (values_of result))))"

text \<open>
  The close-only path of \<^verbatim>\<open>indicator_router\<close>, taken when the payload has the key
  \<^verbatim>\<open>prices\<close>: the name is \<^verbatim>\<open>(payload.get("indicator") or "").upper().strip()\<close>, the
  length gate comes before every branch, and the branches are tried in the order of the
  source.
\<close>

definition indicator_router :: "libs \<Rightarrow> close_only_req \<Rightarrow> error + fval option list" where
  "indicator_router lib req =
     (let ind = py_strip (py_upper (indicator req)); ps = prices req
      in if length ps < 2 then Inl (HTTPException 400 PricesMin2)
         else if ind = ''CURRENT_PRICE'' \<or> ind \<in> set [''PRICE'', ''CLOSE'', ''LAST'']
           then Inr (values_of ps)
         else if ind = ''RSI'' then with_params (params req) (rsi_branch lib ps)
         else if ind = ''SMA''
           then with_params (params req) (\<lambda>p. lib_values (SMA lib ps (get_or (p_period p) 14)))
         else if ind = ''EMA''
           then with_params (params req) (\<lambda>p. lib_values (EMA lib ps (get_or (p_period p) 14)))
         else if ind \<in> set [''MACD'', ''MACD_HIST'', ''MACD-HIST'', ''MACD_LINE'', ''MACD_SIGNAL'']
           then with_params (params req) (macd_branch lib ind ps)
         else if ind \<in> set [''PPO'', ''PPO_LINE'', ''PPO_SIGNAL'', ''PPO_HIST'']
           then with_params (params req) (ppo_branch lib ind ps)
         else if ind \<in> set [''BBANDS_UPPER'', ''BBANDS_MIDDLE'', ''BBANDS_LOWER'']
           then with_params (params req) (bbands_branch lib ind ps)
         else if ind = ''CUMULATIVE_RETURN'' then cumulative_return ps
         else if ind = ''VOLATILITY'' then with_params (params req) (volatility lib ps)
         else Inl (HTTPException 400 (UnsupportedCloseOnly ind)))"

text \<open>The endpoint: the handler, then the rendering of its dictionary.\<close>

definition indicator_endpoint :: "libs \<Rightarrow> close_only_req \<Rightarrow> error + fval option list" where
  "indicator_endpoint lib req =
     (case indicator_router lib req of Inl e \<Rightarrow> Inl e | Inr vs \<Rightarrow> render_values vs)"

section \<open>Libraries and requests for the examples\<close>

text \<open>
  A stand-in for the rolling standard deviation of pandas: NaN while the window is not
  full, for a window below two entries and for a window with an entry that is not
  finite; otherwise the sample standard deviation in exact arithmetic where it is a
  rational number, and NaN where it is not.
\<close>

fun sqrt_search :: "nat \<Rightarrow> int \<Rightarrow> int \<Rightarrow> int \<Rightarrow> int" where
  "sqrt_search 0 k lo hi = lo"
| "sqrt_search (Suc f) k lo hi =
     (if hi \<le> lo + 1 then lo
      else if ((lo + hi) div 2) * ((lo + hi) div 2) \<le> k
           then sqrt_search f k ((lo + hi) div 2) hi
           else sqrt_search f k lo ((lo + hi) div 2))"

definition exact_sqrt :: "int \<Rightarrow> int option" where
  "exact_sqrt k =
     (let r = sqrt_search (nat (bitlen (k + 1)) + 1) k 0 (k + 1)
      in if r * r = k then Some r else None)"

fun the_num :: "fval \<Rightarrow> rat" where
  "the_num (Num a) = a"
| "the_num _ = 0"

definition example_std :: "fval list \<Rightarrow> fval" where
  "example_std win =
     (if list_all isfinite win \<and> 2 \<le> length win
      then (let xs = map the_num win;
                m = sum_list xs / of_int (int (length xs));
                v = sum_list (map (\<lambda>x. (x - m) * (x - m)) xs) / of_int (int (length xs) - 1)
            in case (exact_sqrt (fst (quotient_of v)), exact_sqrt (snd (quotient_of v))) of
                 (Some r, Some t) \<Rightarrow> round_double (of_int r / of_int t)
               | _ \<Rightarrow> NaN)
      else NaN)"

definition example_rolling_std :: rolling_std where
  "example_rolling_std w x =
     (if w < 0 then None
      else Some (map (\<lambda>j. if j + 1 < nat w then NaN
                           else example_std (take (nat w) (drop (j + 1 - nat w) (take (Suc j) x))))
                     [0..<length x]))"

text \<open>Libraries whose TA-Lib functions raise, with and without pandas.\<close>

definition failing_libs :: libs where
  "failing_libs =
     \<lparr>RSI = (\<lambda>_ _. None), SMA = (\<lambda>_ _. None), EMA = (\<lambda>_ _. None),
      MACD = (\<lambda>_ _ _ _. None), PPO = (\<lambda>_ _ _ _. None), BBANDS = (\<lambda>_ _ _ _ _. None),
      ROLLING_STD = (\<lambda>_ _. None)\<rparr>"

definition example_libs :: libs where
  "example_libs = failing_libs\<lparr>ROLLING_STD := example_rolling_std\<rparr>"

definition no_params :: params where
  "no_params =
     \<lparr>p_period = None, p_fastperiod = None, p_slowperiod = None, p_signalperiod = None,
      p_matype = None, p_nbdevup = None, p_nbdevdn = None, p_annualize = None\<rparr>"



section \<open>Properties of the sanitizer\<close>

lemma length_nan_to_none: "length (nan_to_none arr) = length arr"
  by (induction arr rule: nan_to_none.induct) simp_all

lemma nth_nan_to_none:
  "i < length arr \<Longrightarrow>
   nan_to_none arr ! i =
     (case arr ! i of None \<Rightarrow> None | Some x \<Rightarrow> if isnan x then None else Some x)"
proof (induction arr arbitrary: i rule: nan_to_none.induct)
  case 1
  then show ?case by simp
next
  case (2 arr)
  then show ?case by (cases i) simp_all
next
  case (3 x arr)
  then show ?case by (cases i) simp_all
qed

lemma isnan_iff: "isnan x \<longleftrightarrow> x = NaN"
  by (cases x) simp_all

lemma length_values_of: "length (values_of arr) = length arr"
  by (simp add: values_of_def length_nan_to_none)

lemma nth_values_of:
  "i < length arr \<Longrightarrow> values_of arr ! i = (if isnan (arr ! i) then None else Some (arr ! i))"
  by (simp add: values_of_def nth_nan_to_none)

lemma render_values_ok: "list_all json_ok vs \<Longrightarrow> render_values vs = Inr vs"
  by (simp add: render_values_def)

text \<open>
  C4 on the code. The sanitizer hands an infinity on as a float, where the claim has
  every value that is not finite become null; the rendering of the response then
  refuses the infinity and the request is answered with status 500.
\<close>

theorem nan_to_none_passes_infinity:
  "nan_to_none [Some PInf, Some NInf, Some NaN, None] = [Some PInf, Some NInf, None, None] \<and>
   indicator_endpoint failing_libs
     \<lparr>indicator = ''CLOSE'', prices = [Num 1, PInf], params = None\<rparr>
   = Inl (Unhandled ValueError)"
  by code_simp

section \<open>Properties of the string functions\<close>

text \<open>Trimming and upper-casing commute: white space stays white space, and only it.\<close>

lemma space_codes:
  "(n::nat) \<in> {9, 10, 11, 12, 13, 28, 29, 30, 31, 32, 133, 160} \<Longrightarrow>
   \<not> (97 \<le> n \<and> n \<le> 122) \<and> \<not> (224 \<le> n \<and> n \<le> 254 \<and> n \<noteq> 247) \<and> n \<noteq> 223"
  by auto

lemma upper_char_space:
  assumes "isspace c"
  shows "upper_char c = [c]"
proof -
  from assms have "(of_char c :: nat) \<in> {9, 10, 11, 12, 13, 28, 29, 30, 31, 32, 133, 160}"
    by (simp add: isspace_def)
  from space_codes [OF this] show ?thesis
    by (auto simp: upper_char_def Let_def)
qed

lemma range_not_space:
  "(65 \<le> m \<and> m \<le> 90) \<or> (192 \<le> m \<and> m \<le> 222) \<Longrightarrow>
   m \<notin> {9, 10, 11, 12, 13, 28, 29, 30, 31, 32, 133, 160::nat}"
  by auto

lemma shifted_not_space:
  assumes "(97 \<le> n \<and> n \<le> 122) \<or> (224 \<le> n \<and> n \<le> 254)"
  shows "(n - 32) mod 256 \<notin> {9, 10, 11, 12, 13, 28, 29, 30, 31, 32, 133, 160::nat}"
proof -
  from assms have "n - 32 < 256"
    by arith
  then have m: "(n - 32) mod 256 = n - 32"
    by (rule mod_less)
  from assms have "(65 \<le> n - 32 \<and> n - 32 \<le> 90) \<or> (192 \<le> n - 32 \<and> n - 32 \<le> 222)"
    by arith
  then have "n - 32 \<notin> {9, 10, 11, 12, 13, 28, 29, 30, 31, 32, 133, 160::nat}"
    by (rule range_not_space)
  with m show ?thesis
    by simp
qed

lemma upper_char_nonspace:
  assumes "\<not> isspace c"
  shows "upper_char c \<noteq> [] \<and> \<not> isspace (hd (upper_char c)) \<and> \<not> isspace (last (upper_char c))"
proof -
  let ?n = "of_char c :: nat"
  consider (shift) "(97 \<le> ?n \<and> ?n \<le> 122) \<or> (224 \<le> ?n \<and> ?n \<le> 254 \<and> ?n \<noteq> 247)"
    | (ss) "\<not> ((97 \<le> ?n \<and> ?n \<le> 122) \<or> (224 \<le> ?n \<and> ?n \<le> 254 \<and> ?n \<noteq> 247))" "?n = 223"
    | (same) "\<not> ((97 \<le> ?n \<and> ?n \<le> 122) \<or> (224 \<le> ?n \<and> ?n \<le> 254 \<and> ?n \<noteq> 247))" "?n \<noteq> 223"
    by blast
  then show ?thesis
  proof cases
    case shift
    then have u: "upper_char c = [char_of (?n - 32)]"
      by (auto simp: upper_char_def Let_def)
    from shift have "(?n - 32) mod 256 \<notin> {9, 10, 11, 12, 13, 28, 29, 30, 31, 32, 133, 160::nat}"
      by (intro shifted_not_space) auto
    then have "\<not> isspace (char_of (?n - 32))"
      unfolding isspace_def by simp
    with u show ?thesis by simp
  next
    case ss
    then have u: "upper_char c = ''SS''"
      by (auto simp: upper_char_def Let_def)
    have "\<not> isspace CHR ''S''"
      by (simp add: isspace_def)
    with u show ?thesis by simp
  next
    case same
    then have "upper_char c = [c]"
      by (auto simp: upper_char_def Let_def)
    with assms show ?thesis by simp
  qed
qed

lemma dropWhile_concat_map:
  assumes sp: "\<And>c. isspace c \<Longrightarrow> g c = [c]"
    and ns: "\<And>c. \<not> isspace c \<Longrightarrow> g c \<noteq> [] \<and> \<not> isspace (hd (g c))"
  shows "dropWhile isspace (concat (map g s)) = concat (map g (dropWhile isspace s))"
proof (induction s)
  case Nil
  show ?case by simp
next
  case (Cons c s)
  show ?case
  proof (cases "isspace c")
    case True
    from sp [OF True] have "g c = [c]" .
    with True Cons.IH show ?thesis by simp
  next
    case False
    from ns [OF False] have ne: "g c \<noteq> []" and h: "\<not> isspace (hd (g c))"
      by simp_all
    from ne obtain x xs where g: "g c = x # xs"
      by (cases "g c") simp_all
    with h have "\<not> isspace x" by simp
    with g False show ?thesis by simp
  qed
qed

lemma rev_concat_map:
  "rev (concat (map g t)) = concat (map (\<lambda>c. rev (g c)) (rev t))"
  by (induction t) simp_all

lemma strip_upper: "py_strip (py_upper s) = py_upper (py_strip s)"
proof -
  let ?r = "\<lambda>c. rev (upper_char c)"
  let ?s1 = "dropWhile isspace s"
  let ?s2 = "dropWhile isspace (rev ?s1)"
  have a: "dropWhile isspace (concat (map upper_char s)) = concat (map upper_char ?s1)"
    by (rule dropWhile_concat_map) (simp_all add: upper_char_space upper_char_nonspace)
  have b: "dropWhile isspace (concat (map ?r (rev ?s1))) = concat (map ?r ?s2)"
    by (rule dropWhile_concat_map) (simp_all add: upper_char_space upper_char_nonspace hd_rev)
  have "py_strip (py_upper s) = rev (dropWhile isspace (rev (concat (map upper_char ?s1))))"
    by (simp only: py_strip_def py_upper_def a)
  also have "\<dots> = rev (dropWhile isspace (concat (map ?r (rev ?s1))))"
    by (simp only: rev_concat_map)
  also have "\<dots> = rev (concat (map ?r ?s2))"
    by (simp only: b)
  also have "\<dots> = concat (map (\<lambda>c. rev (?r c)) (rev ?s2))"
    by (rule rev_concat_map)
  also have "\<dots> = concat (map upper_char (rev ?s2))"
    by (simp only: rev_rev_ident)
  also have "\<dots> = py_upper (py_strip s)"
    by (simp only: py_strip_def py_upper_def)
  finally show ?thesis .
qed

section \<open>Properties of the close-only path\<close>

text \<open>
  C9. A close-only request whose price array has fewer than two elements is answered
  with status 400 by the length gate, whatever the indicator name, the parameters and
  the library are: no branch of an indicator is reached, \<^verbatim>\<open>CUMULATIVE_RETURN\<close> and
  \<^verbatim>\<open>CURRENT_PRICE\<close> included.
\<close>

theorem short_prices_rejected:
  "length (prices req) < 2 \<Longrightarrow>
   indicator_router lib req = Inl (HTTPException 400 PricesMin2) \<and>
   client_error (indicator_router lib req)"
  by (simp add: indicator_router_def client_error_def Let_def)

theorem short_prices_rejected_witness:
  "indicator_router failing_libs
     \<lparr>indicator = ''CUMULATIVE_RETURN'', prices = [Num 100], params = None\<rparr>
     = Inl (HTTPException 400 PricesMin2) \<and>
   indicator_router failing_libs
     \<lparr>indicator = ''current_price'', prices = [], params = Some no_params\<rparr>
     = Inl (HTTPException 400 PricesMin2)"
  using short_prices_rejected [of "\<lparr>indicator = ''CUMULATIVE_RETURN'', prices = [Num 100], params = None\<rparr>" failing_libs]
    short_prices_rejected [of "\<lparr>indicator = ''current_price'', prices = [], params = Some no_params\<rparr>" failing_libs]
  by simp

lemma router_current_price:
  assumes "2 \<le> length (prices req)"
    and "py_upper (py_strip (indicator req)) \<in> {''CURRENT_PRICE'', ''PRICE'', ''CLOSE'', ''LAST''}"
  shows "indicator_router lib req = Inr (values_of (prices req))"
  using assms by (auto simp: indicator_router_def Let_def strip_upper)

text \<open>
  C10 on the code. For a price array with an infinity the handler returns the infinity
  as a float, and the endpoint answers with status 500 in place of the sanitized
  prices: the defect of the sanitizer (C4).
\<close>

theorem current_price_infinity_fails:
  "indicator_router failing_libs
     \<lparr>indicator = '' Close '', prices = [Num 3, NaN, PInf], params = None\<rparr>
   = Inr [Some (Num 3), None, Some PInf] \<and>
   indicator_endpoint failing_libs
     \<lparr>indicator = '' Close '', prices = [Num 3, NaN, PInf], params = None\<rparr>
   = Inl (Unhandled ValueError)"
  by code_simp

section \<open>Cumulative return\<close>

lemma py_slice_butlast: "py_slice a None (Some (- 1)) = butlast a"
proof -
  have "nat (max (int (length a) - 1) 0) = length a - 1"
    by arith
  then show ?thesis
    by (simp add: py_slice_def slice_bound_def butlast_conv_take)
qed

lemma py_slice_tl: "py_slice a (Some 1) None = drop 1 a"
  by (cases a) (simp_all add: py_slice_def slice_bound_def)

lemma cumulative_return_values:
  assumes "1 \<le> length ps" and "hd ps \<noteq> Num 0"
  shows "cumulative_return ps
         = Inr (values_of (Num 0 # map (\<lambda>x. fsub (fdiv x (hd ps)) (Num 1)) (butlast ps)))"
proof (cases "1 < length ps")
  case True
  then have "np_assign_from (replicate (length ps) NaN) 1
               (map (\<lambda>x. fsub (fdiv x (hd ps)) (Num 1)) (butlast ps))
             = Some (NaN # map (\<lambda>x. fsub (fdiv x (hd ps)) (Num 1)) (butlast ps))"
    by (cases ps) (simp_all add: np_assign_from_def slice_bound_def)
  moreover from True have "ps \<noteq> []"
    by auto
  ultimately show ?thesis
    using True assms by (simp add: cumulative_return_def py_slice_butlast)
next
  case False
  with assms obtain p where "ps = [p]"
    by (cases ps) auto
  with assms show ?thesis
    by (simp add: cumulative_return_def)
qed

lemma router_cumulative:
  assumes "py_upper (py_strip (indicator req)) = ''CUMULATIVE_RETURN''"
    and "2 \<le> length (prices req)"
  shows "indicator_router lib req = cumulative_return (prices req)"
  using assms by (simp add: indicator_router_def Let_def strip_upper)


text \<open>
  C3, as the code has it. For a request named \<^verbatim>\<open>CUMULATIVE_RETURN\<close>: with fewer than
  two prices the answer is status 400 from the length gate, and with a first price equal
  to zero status 400 from the indicator. With at least two prices, a first price other
  than zero and no quotient \<open>P[i-1] / P[0] - 1\<close> that is infinite in float arithmetic,
  the output has the length of the prices, holds 0 at index 0 and at every later index
  \<open>i\<close> the value \<open>P[i-1] / P[0] - 1\<close> as float arithmetic gives it, null where that
  value is NaN.
\<close>

theorem cumulative_return_spec:
  assumes ind: "py_upper (py_strip (indicator req)) = ''CUMULATIVE_RETURN''"
  shows "(length (prices req) < 2
            \<longrightarrow> indicator_endpoint lib req = Inl (HTTPException 400 PricesMin2)) \<and>
         (2 \<le> length (prices req) \<and> prices req ! 0 = Num 0
            \<longrightarrow> indicator_endpoint lib req = Inl (HTTPException 400 InvalidCumulative)) \<and>
         (2 \<le> length (prices req) \<and> prices req ! 0 \<noteq> Num 0 \<and>
          (\<forall>i < length (prices req) - 1.
             \<not> isinf (fsub (fdiv (prices req ! i) (prices req ! 0)) (Num 1))) \<longrightarrow>
            (\<exists>R. indicator_endpoint lib req = Inr R \<and> length R = length (prices req) \<and>
                 R ! 0 = Some (Num 0) \<and>
                 (\<forall>i. 1 \<le> i \<and> i < length (prices req) \<longrightarrow>
                    R ! i = (if fsub (fdiv (prices req ! (i - 1)) (prices req ! 0)) (Num 1) = NaN
                             then None
                             else Some (fsub (fdiv (prices req ! (i - 1)) (prices req ! 0))
                                          (Num 1))))))"
proof (intro conjI impI)
  assume "length (prices req) < 2"
  then show "indicator_endpoint lib req = Inl (HTTPException 400 PricesMin2)"
    by (simp add: indicator_endpoint_def indicator_router_def Let_def)
next
  assume h: "2 \<le> length (prices req) \<and> prices req ! 0 = Num 0"
  then have "prices req \<noteq> []"
    by auto
  with h have "hd (prices req) = Num 0"
    by (simp add: hd_conv_nth)
  then have "cumulative_return (prices req) = Inl (HTTPException 400 InvalidCumulative)"
    by (simp add: cumulative_return_def)
  with router_cumulative [OF ind] h
  show "indicator_endpoint lib req = Inl (HTTPException 400 InvalidCumulative)"
    by (simp add: indicator_endpoint_def)
next
  let ?ps = "prices req"
  let ?f = "\<lambda>x. fsub (fdiv x (?ps ! 0)) (Num 1)"
  let ?R = "values_of (Num 0 # map ?f (butlast ?ps))"
  assume h: "2 \<le> length ?ps \<and> ?ps ! 0 \<noteq> Num 0 \<and> (\<forall>i < length ?ps - 1. \<not> isinf (?f (?ps ! i)))"
  then have "?ps \<noteq> []"
    by auto
  then have hd0: "hd ?ps = ?ps ! 0"
    by (simp add: hd_conv_nth)
  with h have "cumulative_return ?ps = Inr ?R"
    using cumulative_return_values [of ?ps] by simp
  with h have r: "indicator_router lib req = Inr ?R"
    using router_cumulative [OF ind] by simp
  have len: "length ?R = length ?ps"
    using h by (auto simp: length_values_of)
  have r0: "?R ! 0 = Some (Num 0)"
    by (simp add: values_of_def)
  have nth: "?R ! i = (if ?f (?ps ! (i - 1)) = NaN then None else Some (?f (?ps ! (i - 1))))"
    if i: "1 \<le> i" "i < length ?ps" for i
  proof -
    from i obtain j where j: "i = Suc j" "j < length (butlast ?ps)"
      by (cases i) auto
    then have "(Num 0 # map ?f (butlast ?ps)) ! i = ?f (?ps ! j)"
      by (simp add: nth_butlast)
    moreover from j i have "i < length (Num 0 # map ?f (butlast ?ps))"
      by simp
    ultimately show ?thesis
      using j by (simp add: nth_values_of isnan_iff del: nth_Cons_Suc length_Cons)
  qed
  have ok: "json_ok (?R ! i)" if "i < length ?R" for i
  proof (cases i)
    case 0
    with r0 show ?thesis
      by (simp add: json_ok_def)
  next
    case (Suc j)
    with that len have i: "1 \<le> i" "i < length ?ps" and j: "j < length ?ps - 1"
      by auto
    from h j have "\<not> isinf (?f (?ps ! j))"
      by simp
    with nth [OF i] Suc show ?thesis
      by (cases "?f (?ps ! j)") (simp_all add: json_ok_def isinf_def)
  qed
  then have "list_all json_ok ?R"
    by (simp add: list_all_length)
  with r have e: "indicator_endpoint lib req = Inr ?R"
    by (simp add: indicator_endpoint_def render_values_ok)
  show "\<exists>R. indicator_endpoint lib req = Inr R \<and> length R = length ?ps \<and>
                 R ! 0 = Some (Num 0) \<and>
                 (\<forall>i. 1 \<le> i \<and> i < length ?ps \<longrightarrow>
                    R ! i = (if ?f (?ps ! (i - 1)) = NaN then None else Some (?f (?ps ! (i - 1)))))"
    using e len r0 nth by blast
qed

theorem cumulative_return_spec_witness:
  "indicator_endpoint failing_libs
     \<lparr>indicator = ''cumulative_return'', prices = [Num 10, Num 11, Num 9, Num 12],
        params = None\<rparr>
   = Inr [Some (Num 0), Some (Num 0), Some (Num (225179981368525 / 2251799813685248)),
          Some (Num (- (900719925474099 / 9007199254740992)))] \<and>
   indicator_endpoint failing_libs
     \<lparr>indicator = ''cumulative_return'', prices = [Num 0, Num 3, Num 5], params = None\<rparr>
   = Inl (HTTPException 400 InvalidCumulative)"
proof -
  let ?req = "\<lparr>indicator = ''cumulative_return'', prices = [Num 10, Num 11, Num 9, Num 12],
                 params = None\<rparr>"
  let ?bad = "\<lparr>indicator = ''cumulative_return'', prices = [Num 0, Num 3, Num 5], params = None\<rparr>"
  have u: "py_upper (py_strip ''cumulative_return'') = ''CUMULATIVE_RETURN''"
    by code_simp
  have v: "fsub (fdiv (Num 10) (Num 10)) (Num 1) = Num 0"
    "fsub (fdiv (Num 11) (Num 10)) (Num 1) = Num (225179981368525 / 2251799813685248)"
    "fsub (fdiv (Num 9) (Num 10)) (Num 1) = Num (- (900719925474099 / 9007199254740992))"
    by code_simp+
  have fin: "\<forall>i < 3. \<not> isinf (fsub (fdiv ([Num 10, Num 11, Num 9, Num 12] ! i) (Num 10)) (Num 1))"
    by (simp add: v isinf_def less_Suc_eq numeral_3_eq_3 del: fdiv.simps fsub.simps)
  from cumulative_return_spec [of ?req failing_libs] u fin
  obtain R where R: "indicator_endpoint failing_libs ?req = Inr R" "length R = 4"
      "R ! 0 = Some (Num 0)"
      "\<forall>i. 1 \<le> i \<and> i < 4 \<longrightarrow>
           R ! i = (if fsub (fdiv ([Num 10, Num 11, Num 9, Num 12] ! (i - 1)) (Num 10)) (Num 1) = NaN
                    then None
                    else Some (fsub (fdiv ([Num 10, Num 11, Num 9, Num 12] ! (i - 1)) (Num 10))
                                 (Num 1)))"
    by auto
  from R(4) [rule_format, of 1] R(4) [rule_format, of 2] R(4) [rule_format, of 3]
  have "R ! 1 = Some (Num 0)" "R ! 2 = Some (Num (225179981368525 / 2251799813685248))"
    "R ! 3 = Some (Num (- (900719925474099 / 9007199254740992)))"
    by (simp_all add: v del: fdiv.simps fsub.simps)
  with R(2,3) have "R = [Some (Num 0), Some (Num 0), Some (Num (225179981368525 / 2251799813685248)),
          Some (Num (- (900719925474099 / 9007199254740992)))]"
    by (cases R; cases "tl R"; cases "tl (tl R)"; cases "tl (tl (tl R))") auto
  with R(1) have "indicator_endpoint failing_libs ?req
                  = Inr [Some (Num 0), Some (Num 0), Some (Num (225179981368525 / 2251799813685248)),
          Some (Num (- (900719925474099 / 9007199254740992)))]"
    by simp
  moreover from cumulative_return_spec [of ?bad failing_libs] u
  have "indicator_endpoint failing_libs ?bad = Inl (HTTPException 400 InvalidCumulative)"
    by simp
  ultimately show ?thesis
    by simp
qed

text \<open>
  C3 as stated fails for a single price: the claim promises the output \<open>[0]\<close> for
  \<open>P = [5]\<close>, and the length gate of the close-only path answers with status 400.
\<close>

theorem cumulative_return_single_price_counterexample:
  "indicator_endpoint failing_libs
     \<lparr>indicator = ''CUMULATIVE_RETURN'', prices = [Num 5], params = None\<rparr>
   = Inl (HTTPException 400 PricesMin2)"
  by code_simp

section \<open>Equity to returns\<close>

lemma fdiv_NaN_right: "fdiv x NaN = NaN"
  by (cases x) simp_all

lemma equity_pairs:
  assumes "2 \<le> length e"
  shows "map (\<lambda>r. fsub r (Num 1))
           (np_div (py_slice e (Some 1) None)
              (map (\<lambda>p. if p = Num 0 then NaN else p) (py_slice e None (Some (- 1)))))
         = map (\<lambda>i. fsub (fdiv (e ! (i + 1)) (if e ! i = Num 0 then NaN else e ! i)) (Num 1))
             [0..<length e - 1]"
  using assms
  by (auto simp: list_eq_iff_nth_eq np_div_def py_slice_butlast py_slice_tl nth_butlast)

text \<open>
  C6. For every equity array the derived series is the one the specification describes:
  the values \<open>equity[i+1] / equity[i] - 1\<close> of the consecutive pairs, in the order of
  the pairs, without the pairs whose denominator is zero or whose value is not finite;
  every value kept is finite.
\<close>

theorem equity_to_returns_spec:
  "equity_to_returns e = equity_returns_spec e \<and> (\<forall>r \<in> set (equity_to_returns e). isfinite r)"
proof (cases "2 \<le> length e")
  case True
  let ?g = "\<lambda>i. fsub (fdiv (e ! (i + 1)) (if e ! i = Num 0 then NaN else e ! i)) (Num 1)"
  let ?f = "\<lambda>i. fsub (fdiv (e ! (i + 1)) (e ! i)) (Num 1)"
  from True have "equity_to_returns e = filter isfinite (map ?g [0..<length e - 1])"
    by (simp add: equity_to_returns_def Let_def equity_pairs del: map_map)
  also have "\<dots> = map ?g (filter (\<lambda>i. isfinite (?g i)) [0..<length e - 1])"
    by (simp add: filter_map comp_def)
  also have "filter (\<lambda>i. isfinite (?g i)) [0..<length e - 1]
             = filter (\<lambda>i. e ! i \<noteq> Num 0 \<and> isfinite (?f i)) [0..<length e - 1]"
    by (rule filter_cong) (simp_all add: fdiv_NaN_right)
  also have "map ?g (filter (\<lambda>i. e ! i \<noteq> Num 0 \<and> isfinite (?f i)) [0..<length e - 1])
             = map ?f (filter (\<lambda>i. e ! i \<noteq> Num 0 \<and> isfinite (?f i)) [0..<length e - 1])"
    by (rule map_cong) simp_all
  finally have "equity_to_returns e = equity_returns_spec e"
    by (simp add: equity_returns_spec_def)
  moreover from True have "\<forall>r \<in> set (equity_to_returns e). isfinite r"
    by (simp add: equity_to_returns_def Let_def)
  ultimately show ?thesis
    by simp
next
  case False
  then have "length e - 1 = 0"
    by arith
  with False show ?thesis
    by (simp add: equity_to_returns_def equity_returns_spec_def)
qed

theorem equity_to_returns_spec_witness:
  "equity_to_returns [Num 100, Num 0, Num 50, Num 100, PInf, Num 3] = [Num (- 1), Num 1, Num (- 1)]
   \<and> equity_returns_spec [Num 100, Num 0, Num 50, Num 100, PInf, Num 3]
       = [Num (- 1), Num 1, Num (- 1)]"
proof -
  have "equity_to_returns [Num 100, Num 0, Num 50, Num 100, PInf, Num 3]
        = [Num (- 1), Num 1, Num (- 1)]"
    by code_simp
  with equity_to_returns_spec [of "[Num 100, Num 0, Num 50, Num 100, PInf, Num 3]"]
  show ?thesis
    by simp
qed

section \<open>Properties of the metrics aggregator\<close>



















section \<open>Properties of the return and equity normalizer\<close>








end
